theory Spec2Isabelle
  imports Main "HOL-Library.Word"
begin

section \<open>Data model of \<open>src/utilities/smtp_client.py\<close>\<close>

text \<open>
  A \<open>Path\<close> is modelled by its string form (\<open>str(file)\<close>), file contents by a list of
  octets.  The string enumerations \<open>SMTPServerConfig\<close> and \<open>MIMESemantics\<close> are
  \<open>StrEnum\<close>s: each member is the string it is bound to.

  A Python \<open>str\<close> is modelled by the octets of its UTF-8 encoding.  A surrogate code
  point (\<open>U+D800\<close> to \<open>U+DFFF\<close>) has no UTF-8 encoding; it is written in the three-octet
  form that the \<open>surrogatepass\<close> handler gives it: \<open>0xED\<close>, an octet from \<open>0xA0\<close> to
  \<open>0xBF\<close>, and a continuation octet.  No other code point has \<open>0xED\<close> followed by
  such an octet.  The empty \<open>str\<close> is the empty list, and concatenation is \<open>@\<close>.
\<close>

type_synonym path = string
type_synonym byte = "8 word"

definition SMTP_SERVER :: string where "SMTP_SERVER = ''smtp.gmail.com''"
definition SMTP_PORT :: string where "SMTP_PORT = ''465''"
definition SECURITY_CONTRACT :: string where "SECURITY_CONTRACT = ''SSL''"

definition MULTIPART_ENTRY :: string where "MULTIPART_ENTRY = ''alternative''"
definition SUBJECT :: string where "SUBJECT = ''Subject''"
definition FROM :: string where "FROM = ''From''"
definition TO :: string where "TO = ''To''"
definition PLAIN_TEXT :: string where "PLAIN_TEXT = ''plain''"
definition HTML :: string where "HTML = ''html''"

text \<open>The frozen dataclass \<open>EmailMessage\<close>.\<close>

record EmailMessage =
  destination_email_address :: string
  subject :: string
  plain_text_body :: string
  html_body :: string
  attachments :: "path list"

text \<open>The frozen dataclass \<open>SMTPConfig\<close>; the last three fields have defaults.\<close>

record SMTPConfig =
  sender_email_address :: string
  google_smtp_app_passwd :: string
  smtp_server :: string
  smtp_port :: string
  security_contract :: string

definition SMTPConfig_new :: "string \<Rightarrow> string \<Rightarrow> SMTPConfig" where
  "SMTPConfig_new sender passwd =
     \<lparr>sender_email_address = sender, google_smtp_app_passwd = passwd,
      smtp_server = SMTP_SERVER, smtp_port = SMTP_PORT,
      security_contract = SECURITY_CONTRACT\<rparr>"

subsection \<open>Exceptions\<close>

text \<open>
  One constructor for each exception class that the module raises or names in an
  \<open>except\<close> clause, and for those that the library calls of the module raise.
  \<open>SMTPServerDisconnected\<close> is the subclass of \<open>smtplib.SMTPException\<close> that leaving
  the \<open>with\<close> block treats on its own; \<open>SMTPException\<close> stands for an instance of any
  other subclass of \<open>smtplib.SMTPException\<close>, \<open>OSError\<close> for any other
  operating-system error (a refused connection, \<open>PermissionError\<close> or
  \<open>IsADirectoryError\<close> from the file system), \<open>TypeError\<close> for calling or raising
  something that is not an exception class.
\<close>

datatype exn =
    NameError string
  | RuntimeError string
  | ValueError string
  | TypeError string
  | FileNotFoundError string
  | OSError string
  | SMTPEmailException string
  | SMTPConnectError
  | SMTPAuthenticationError
  | SMTPSenderRefused
  | SMTPServerDisconnected
  | SMTPException string
  | UnicodeEncodeError string

subsection \<open>Name resolution\<close>

text \<open>
  A name that is not local to a function is looked up among the module's globals and then
  among the builtins; a name bound in neither raises \<open>NameError\<close>.  \<open>module_globals\<close>
  lists what the module binds at top level: its imports, its classes, and the three
  variables assigned by the script section before the first call of \<open>send_email\<close>.
  \<open>builtins\<close> is the content of Python 3.11's \<open>builtins\<close> module.
\<close>

definition module_globals :: "string list" where
  "module_globals =
     [''os'', ''smtplib'', ''ssl'', ''Path'', ''StrEnum'', ''dataclass'', ''field'',
      ''encoders'', ''Message'', ''MIMEText'', ''MIMEBase'', ''MIMEMultipart'',
      ''SMTPServerConfig'', ''EmailMessage'', ''SMTPEmailException'', ''MIMESemantics'',
      ''SMTPConfig'', ''SMTPClient'', ''EmailClient'',
      ''my_email_contents'', ''manasi_email_contents'', ''my_client'']"

definition builtins :: "string list" where
  "builtins =
     [''ArithmeticError'', ''AssertionError'', ''AttributeError'', ''BaseException'',
      ''BaseExceptionGroup'', ''BlockingIOError'', ''BrokenPipeError'', ''BufferError'',
      ''BytesWarning'', ''ChildProcessError'', ''ConnectionAbortedError'',
      ''ConnectionError'', ''ConnectionRefusedError'', ''ConnectionResetError'',
      ''DeprecationWarning'', ''EOFError'', ''Ellipsis'', ''EncodingWarning'',
      ''EnvironmentError'', ''Exception'', ''ExceptionGroup'', ''False'',
      ''FileExistsError'', ''FileNotFoundError'', ''FloatingPointError'',
      ''FutureWarning'', ''GeneratorExit'', ''IOError'', ''ImportError'',
      ''ImportWarning'', ''IndentationError'', ''IndexError'', ''InterruptedError'',
      ''IsADirectoryError'', ''KeyError'', ''KeyboardInterrupt'', ''LookupError'',
      ''MemoryError'', ''ModuleNotFoundError'', ''NameError'', ''None'',
      ''NotADirectoryError'', ''NotImplemented'', ''NotImplementedError'', ''OSError'',
      ''OverflowError'', ''PendingDeprecationWarning'', ''PermissionError'',
      ''ProcessLookupError'', ''RecursionError'', ''ReferenceError'',
      ''ResourceWarning'', ''RuntimeError'', ''RuntimeWarning'', ''StopAsyncIteration'',
      ''StopIteration'', ''SyntaxError'', ''SyntaxWarning'', ''SystemError'',
      ''SystemExit'', ''TabError'', ''TimeoutError'', ''True'', ''TypeError'',
      ''UnboundLocalError'', ''UnicodeDecodeError'', ''UnicodeEncodeError'',
      ''UnicodeError'', ''UnicodeTranslateError'', ''UnicodeWarning'', ''UserWarning'',
      ''ValueError'', ''Warning'', ''ZeroDivisionError'', ''__build_class__'',
      ''__debug__'', ''__doc__'', ''__import__'', ''__loader__'', ''__name__'',
      ''__package__'', ''__spec__'', ''abs'', ''aiter'', ''all'', ''anext'', ''any'',
      ''ascii'', ''bin'', ''bool'', ''breakpoint'', ''bytearray'', ''bytes'',
      ''callable'', ''chr'', ''classmethod'', ''compile'', ''complex'', ''copyright'',
      ''credits'', ''delattr'', ''dict'', ''dir'', ''divmod'', ''enumerate'', ''eval'',
      ''exec'', ''exit'', ''filter'', ''float'', ''format'', ''frozenset'', ''getattr'',
      ''globals'', ''hasattr'', ''hash'', ''help'', ''hex'', ''id'', ''input'', ''int'',
      ''isinstance'', ''issubclass'', ''iter'', ''len'', ''license'', ''list'',
      ''locals'', ''map'', ''max'', ''memoryview'', ''min'', ''next'', ''object'',
      ''oct'', ''open'', ''ord'', ''pow'', ''print'', ''property'', ''quit'', ''range'',
      ''repr'', ''reversed'', ''round'', ''set'', ''setattr'', ''slice'', ''sorted'',
      ''staticmethod'', ''str'', ''sum'', ''super'', ''tuple'', ''type'', ''vars'',
      ''zip'']"

text \<open>
  Loading a global name: the object it denotes is represented by the name itself (every
  binding above is a module, a class, a function or a script variable).
\<close>

definition load_global :: "string \<Rightarrow> exn + string" where
  "load_global n =
     (if n \<in> set module_globals \<or> n \<in> set builtins then Inr n else Inl (NameError n))"

text \<open>
  \<open>raise C(msg)\<close>: the name \<open>C\<close> is loaded first, then called with the message, and the
  instance is raised.  Objects that are not exception classes cannot be raised.
\<close>

definition instantiate :: "string \<Rightarrow> string \<Rightarrow> exn" where
  "instantiate cls msg =
     (if cls = ''RuntimeError'' then RuntimeError msg
      else if cls = ''ValueError'' then ValueError msg
      else if cls = ''FileNotFoundError'' then FileNotFoundError msg
      else if cls = ''SMTPEmailException'' then SMTPEmailException msg
      else if cls = ''NameError'' then NameError msg
      else if cls = ''OSError'' then OSError msg
      else TypeError cls)"

definition raise_named :: "string \<Rightarrow> string \<Rightarrow> exn" where
  "raise_named n msg = (case load_global n of Inl e \<Rightarrow> e | Inr cls \<Rightarrow> instantiate cls msg)"

subsection \<open>MIME structures of the \<open>email\<close> package\<close>

text \<open>
  A text part is kept as the arguments of the call \<open>MIMEText(text, subtype)\<close> that
  made it.  A \<open>MIMEBase\<close> part is its
  header list and its payload; a \<open>MIMEMultipart\<close> is its header list and the list of
  attached parts.  Under the default policy \<open>msg[name] = value\<close> appends a header and
  never replaces one; \<open>len(msg)\<close> is the number of headers, and it decides the truth
  value of a message object.
\<close>

datatype payload = NoPayload | BytesPayload "byte list" | TextPayload string

datatype mime_part =
    MIMEText string string
  | MIMEBase "(string \<times> string) list" payload

record MIMEMultipart =
  headers :: "(string \<times> string) list"
  parts :: "mime_part list"

definition MIMEMultipart_new :: "string \<Rightarrow> MIMEMultipart" where
  "MIMEMultipart_new subtype =
     \<lparr>headers = [(''Content-Type'', ''multipart/'' @ subtype), (''MIME-Version'', ''1.0'')],
      parts = []\<rparr>"

definition set_header :: "MIMEMultipart \<Rightarrow> string \<Rightarrow> string \<Rightarrow> MIMEMultipart" where
  "set_header m name val = m\<lparr>headers := headers m @ [(name, val)]\<rparr>"

definition attach :: "MIMEMultipart \<Rightarrow> mime_part \<Rightarrow> MIMEMultipart" where
  "attach m p = m\<lparr>parts := parts m @ [p]\<rparr>"

definition truthy :: "MIMEMultipart \<Rightarrow> bool" where
  "truthy m = (length (headers m) \<noteq> 0)"

text \<open>
  The call \<open>MIMEText(text, subtype)\<close> itself.  Without a charset argument it tries
  \<open>us-ascii\<close> and falls back to \<open>utf-8\<close>, and \<open>set_payload\<close> then encodes the text
  with the \<open>surrogateescape\<close> handler.  That handler turns the surrogates \<open>U+DC80\<close> to
  \<open>U+DCFF\<close> (second octet \<open>0xB2\<close> or \<open>0xB3\<close> in the model's form) into single
  octets; any other surrogate in the text raises \<open>UnicodeEncodeError\<close>.
\<close>

fun has_unencodable_surrogate :: "string \<Rightarrow> bool" where
  "has_unencodable_surrogate (a # b # rest) =
     ((of_char a = (0xED :: nat)
       \<and> ((0xA0 :: nat) \<le> of_char b \<and> of_char b \<le> (0xB1 :: nat)
          \<or> (0xB4 :: nat) \<le> of_char b \<and> of_char b \<le> (0xBF :: nat)))
      \<or> has_unencodable_surrogate (b # rest))"
| "has_unencodable_surrogate _ = False"

definition MIMEText_init :: "string \<Rightarrow> string \<Rightarrow> exn + mime_part" where
  "MIMEText_init text subtype =
     (if has_unencodable_surrogate text then Inl (UnicodeEncodeError text)
      else Inr (MIMEText text subtype))"

definition MIMEBase_new :: "string \<Rightarrow> string \<Rightarrow> mime_part" where
  "MIMEBase_new maintype subtype =
     MIMEBase [(''Content-Type'', maintype @ ''/'' @ subtype), (''MIME-Version'', ''1.0'')]
       NoPayload"

fun set_payload :: "mime_part \<Rightarrow> payload \<Rightarrow> mime_part" where
  "set_payload (MIMEBase hs _) p = MIMEBase hs p"
| "set_payload (MIMEText t s) _ = MIMEText t s"

fun add_header :: "mime_part \<Rightarrow> string \<Rightarrow> string \<Rightarrow> mime_part" where
  "add_header (MIMEBase hs p) name val = MIMEBase (hs @ [(name, val)]) p"
| "add_header (MIMEText t s) _ _ = MIMEText t s"

fun part_headers :: "mime_part \<Rightarrow> (string \<times> string) list" where
  "part_headers (MIMEBase hs _) = hs"
| "part_headers (MIMEText _ _) = []"

fun part_payload :: "mime_part \<Rightarrow> payload" where
  "part_payload (MIMEBase _ p) = p"
| "part_payload (MIMEText t _) = TextPayload t"

subsection \<open>Base64 (\<open>base64.encodebytes\<close>, used by \<open>encoders.encode_base64\<close>)\<close>

definition b64_alphabet :: string where
  "b64_alphabet = ''ABCDEFGHIJKLMNOPQRSTUVWXYZabcdefghijklmnopqrstuvwxyz0123456789+/''"

definition b64_char :: "nat \<Rightarrow> char" where
  "b64_char i = b64_alphabet ! (i mod 64)"

fun b64_groups :: "byte list \<Rightarrow> string" where
  "b64_groups [] = []"
| "b64_groups [a] =
     [b64_char (unat a div 4), b64_char ((unat a mod 4) * 16), CHR ''='', CHR ''='']"
| "b64_groups [a, b] =
     [b64_char (unat a div 4), b64_char ((unat a mod 4) * 16 + unat b div 16),
      b64_char ((unat b mod 16) * 4), CHR ''='']"
| "b64_groups (a # b # c # rest) =
     [b64_char (unat a div 4), b64_char ((unat a mod 4) * 16 + unat b div 16),
      b64_char ((unat b mod 16) * 4 + unat c div 64), b64_char (unat c mod 64)]
     @ b64_groups rest"

text \<open>\<open>binascii.b2a_base64\<close> ends the line it produces with a newline.\<close>

definition b2a_base64 :: "byte list \<Rightarrow> string" where
  "b2a_base64 chunk = b64_groups chunk @ [CHR 0x0A]"

text \<open>\<open>encodebytes\<close> cuts the input into chunks of 57 octets, one line of output each.\<close>

function encodebytes :: "byte list \<Rightarrow> string" where
  "encodebytes s =
     (if s = [] then []
      else b2a_base64 (take 57 s) @ encodebytes (drop 57 s))"
  by pat_completeness auto
termination
  by (relation "measure length") auto

fun encode_base64 :: "mime_part \<Rightarrow> mime_part" where
  "encode_base64 (MIMEBase hs (BytesPayload orig)) =
     MIMEBase (hs @ [(''Content-Transfer-Encoding'', ''base64'')])
       (TextPayload (encodebytes orig))"
| "encode_base64 p = p"

section \<open>The world around the client\<close>

text \<open>
  The process environment, the file system, the mail relay and the console are explicit.
  A path is absent from the file system, or names something that \<open>open(file, "rb")\<close>
  can read, or names something that exists but cannot be opened or read (a directory,
  a file without read permission), or cannot even be examined: \<open>Path.exists\<close> returns
  \<open>False\<close> when \<open>stat\<close> reports that nothing is there and lets every other error of
  \<open>stat\<close> through (no permission to search the directory, for one).  The relay is scripted: for each of its operations it
  either accepts or raises the given exception.  Every operation the client performs on
  the network is appended to \<open>net_log\<close>, every \<open>print\<close> to \<open>stdout\<close> (the text
  before the formatted exception, and the exception).
\<close>

datatype fs_entry = Readable "byte list" | Unreadable | Inaccessible

record relay =
  connect_raises :: "exn option"
  login_raises :: "exn option"
  sendmail_raises :: "exn option"
  quit_raises :: "exn option"

datatype net_event =
    Connect string string
  | Login string string
  | Sendmail string string string
  | Quit

record world =
  filesystem :: "path \<rightharpoonup> fs_entry"
  server :: relay
  net_log :: "net_event list"
  stdout :: "(string \<times> exn) list"

definition emit :: "net_event \<Rightarrow> world \<Rightarrow> world" where
  "emit ev w = w\<lparr>net_log := net_log w @ [ev]\<rparr>"

definition print :: "string \<Rightarrow> exn \<Rightarrow> world \<Rightarrow> world" where
  "print text e w = w\<lparr>stdout := stdout w @ [(text, e)]\<rparr>"

definition getenv :: "(string \<rightharpoonup> string) \<Rightarrow> string \<Rightarrow> string \<Rightarrow> string" where
  "getenv environ name dflt = (case environ name of None \<Rightarrow> dflt | Some v \<Rightarrow> v)"

definition exists :: "(path \<rightharpoonup> fs_entry) \<Rightarrow> path \<Rightarrow> exn + bool" where
  "exists fs file =
     (case fs file of
        None \<Rightarrow> Inr False
      | Some Inaccessible \<Rightarrow> Inl (OSError file)
      | Some _ \<Rightarrow> Inr True)"

definition open_rb :: "(path \<rightharpoonup> fs_entry) \<Rightarrow> path \<Rightarrow> exn + byte list" where
  "open_rb fs file =
     (case fs file of
        None \<Rightarrow> Inl (FileNotFoundError file)
      | Some (Readable content) \<Rightarrow> Inr content
      | Some _ \<Rightarrow> Inl (OSError file))"

section \<open>\<open>SMTPClient\<close>\<close>

record SMTPClient =
  cfg :: SMTPConfig
  message :: MIMEMultipart

definition SENDER_EMAIL_ADDRESS :: string where
  "SENDER_EMAIL_ADDRESS = ''SENDER_EMAIL_ADDRESS''"

definition GOOGLE_SMTP_APP_PASS :: string where
  "GOOGLE_SMTP_APP_PASS = ''GOOGLE_SMTP_APP_PASS''"

text \<open>\<open>SMTPClient.__init__\<close>: no statement of it raises.\<close>

definition SMTPClient_init :: "(string \<rightharpoonup> string) \<Rightarrow> SMTPClient" where
  "SMTPClient_init environ =
     \<lparr>cfg = SMTPConfig_new (getenv environ SENDER_EMAIL_ADDRESS [])
              (getenv environ GOOGLE_SMTP_APP_PASS []),
      message = MIMEMultipart_new MULTIPART_ENTRY\<rparr>"

text \<open>
  \<open>SMTPClient.__post_init__\<close>.  The class is not a dataclass, so nothing calls this
  method: \<open>SMTPClient_init\<close> does not mention it.  Its guards compare a \<open>str\<close> with
  \<open>None\<close>; the string is injected into \<open>option\<close> to write the comparison down.
\<close>

definition SMTPClient_post_init :: "SMTPClient \<Rightarrow> exn + unit" where
  "SMTPClient_post_init self =
     (if Some (sender_email_address (cfg self)) = None
      then Inl (raise_named ''ValueError''
             (''SMTPClient: Could Not Find sender_email_address; ''
              @ sender_email_address (cfg self)))
      else if Some (google_smtp_app_passwd (cfg self)) = None
      then Inl (raise_named ''ValueError''
             ''SMTPClient: Could Not find Google SMTP Server Passwd'')
      else Inr ())"

text \<open>
  \<open>SMTPClient._init_MIMEMultipart_email\<close>.  It works on the builder stored in the
  client, which it replaces only when that builder is falsy.  The three headers are set
  before the text parts are made, so they stay on the builder when \<open>MIMEText\<close> raises.
\<close>

definition init_MIMEMultipart_email ::
  "SMTPClient \<Rightarrow> string \<Rightarrow> string \<Rightarrow> string \<Rightarrow> string \<Rightarrow> (exn + unit) \<times> SMTPClient" where
  "init_MIMEMultipart_email self subj dest plain html =
     (if plain = []
      then (Inl (raise_named ''RunTimeError''
                  ''Must Specify a plain text alternative to Email Contents''), self)
      else if html = []
      then (Inl (raise_named ''RuntTimeError''
                  ''Must Specify a HTML body to Email Contents''), self)
      else if subj = []
      then (Inl (raise_named ''RuntTimeError''
                  ''Must Specify subject in Email Contents''), self)
      else
        let m0 = (if \<not> truthy (message self) then MIMEMultipart_new MULTIPART_ENTRY
                  else message self);
            m1 = set_header m0 SUBJECT subj;
            m2 = set_header m1 FROM (sender_email_address (cfg self));
            m3 = set_header m2 TO dest
        in (case MIMEText_init plain PLAIN_TEXT of
              Inl e \<Rightarrow> (Inl e, self\<lparr>message := m3\<rparr>)
            | Inr text_part \<Rightarrow>
                (case MIMEText_init html HTML of
                   Inl e \<Rightarrow> (Inl e, self\<lparr>message := m3\<rparr>)
                 | Inr html_part \<Rightarrow>
                     let m4 = attach m3 text_part;
                         m5 = attach m4 html_part
                     in (Inr (), self\<lparr>message := m5\<rparr>))))"

text \<open>
  \<open>SMTPClient._add_attachments\<close>: the loop over \<open>files\<close>.  The \<open>continue\<close> after the
  \<open>raise\<close> is unreachable.
\<close>

fun add_attachments ::
  "(path \<rightharpoonup> fs_entry) \<Rightarrow> SMTPClient \<Rightarrow> path list \<Rightarrow> (exn + unit) \<times> SMTPClient" where
  "add_attachments fs self [] = (Inr (), self)"
| "add_attachments fs self (file # files) =
     (case exists fs file of
        Inl e \<Rightarrow> (Inl e, self)
      | Inr found \<Rightarrow>
          if \<not> found
          then (Inl (raise_named ''FileNotFoundError'' (''Could not find file: '' @ file)),
                self)
          else
            (case open_rb fs file of
               Inl e \<Rightarrow> (Inl e, self)
             | Inr content \<Rightarrow>
                 let part0 = MIMEBase_new ''application'' ''octet-stream'';
                     part1 = set_payload part0 (BytesPayload content);
                     part2 = encode_base64 part1;
                     part3 = add_header part2 ''Content''
                               (''attachment; filename = '' @ file)
                 in add_attachments fs
                      (self\<lparr>message := attach (message self) part3\<rparr>) files))"

text \<open>
  The \<open>with smtplib.SMTP_SSL(...)\<close> block of \<open>send_email\<close>.  Constructing \<open>SMTP_SSL\<close>
  connects; when that raises, the block is not entered.  Inside the block the client logs
  in and then evaluates the call of \<open>sendmail\<close>, whose second and third argument load
  the names \<open>receiver_email\<close> and \<open>message\<close>.  Leaving the block, with or without a
  pending exception, sends \<open>QUIT\<close>.  \<open>SMTP.__exit__\<close> swallows an
  \<open>SMTPServerDisconnected\<close> raised there, so the pending exception, if any, goes on;
  any other exception raised there replaces the pending one.
  The result is the exception that reaches the \<open>except\<close> clauses, if any.
\<close>

definition with_body :: "SMTPConfig \<Rightarrow> world \<Rightarrow> exn option \<times> world" where
  "with_body c w =
     (let w1 = emit (Login (sender_email_address c) (google_smtp_app_passwd c)) w in
      case login_raises (server w1) of
        Some e \<Rightarrow> (Some e, w1)
      | None \<Rightarrow>
          (case load_global ''receiver_email'' of
             Inl e \<Rightarrow> (Some e, w1)
           | Inr receiver_email \<Rightarrow>
               (case load_global ''message'' of
                  Inl e \<Rightarrow> (Some e, w1)
                | Inr msg \<Rightarrow>
                    let w2 = emit (Sendmail (sender_email_address c) receiver_email msg) w1
                    in (sendmail_raises (server w2), w2))))"

definition smtp_exit :: "exn option \<times> world \<Rightarrow> exn option \<times> world" where
  "smtp_exit r =
     (let w1 = emit Quit (snd r) in
      case quit_raises (server w1) of
        None \<Rightarrow> (fst r, w1)
      | Some SMTPServerDisconnected \<Rightarrow> (fst r, w1)
      | Some e \<Rightarrow> (Some e, w1))"

definition smtp_session :: "SMTPConfig \<Rightarrow> world \<Rightarrow> exn option \<times> world" where
  "smtp_session c w =
     (let w1 = emit (Connect (smtp_server c) (smtp_port c)) w in
      case connect_raises (server w1) of
        Some e \<Rightarrow> (Some e, w1)
      | None \<Rightarrow> smtp_exit (with_body c w1))"

text \<open>
  The \<open>except\<close> clauses, in the order of the source: the first clause whose class the
  exception is an instance of prints its text.  Every exception of \<open>exn\<close> is an
  \<open>Exception\<close>, so the last clause catches whatever the others do not.
\<close>

fun except_clause :: "exn \<Rightarrow> string" where
  "except_clause SMTPConnectError = ''Error Connecting to server.''"
| "except_clause SMTPAuthenticationError = ''Error with Server Auth.''"
| "except_clause SMTPSenderRefused = ''Sender Email Address Refused to comply.''"
| "except_clause SMTPServerDisconnected = ''Error with SMTP Operation.''"
| "except_clause (SMTPException _) = ''Error with SMTP Operation.''"
| "except_clause _ = ''Exception raised in SMTPClient.send_email() instance.''"

text \<open>
  \<open>SMTPClient.send_email\<close>.  The argument is \<open>None\<close> or an \<open>EmailMessage\<close> (an instance
  of the dataclass is always truthy).  The result is the exception that leaves the method
  or the value it returns, where \<open>None\<close> is Python's \<open>None\<close>; the client and the world
  are returned as the method leaves them in either case.  The method has no \<open>return\<close>
  statement.
\<close>

definition SMTPClient_send_email ::
  "SMTPClient \<Rightarrow> EmailMessage option \<Rightarrow> world \<Rightarrow> (exn + bool option) \<times> SMTPClient \<times> world" where
  "SMTPClient_send_email self email_contents w =
     (case email_contents of
        None \<Rightarrow>
          (Inl (raise_named ''SMTPEmailException''
                 ''Must Specify Message Contents for Mail Transfer''), self, w)
      | Some ec \<Rightarrow>
          (case init_MIMEMultipart_email self (subject ec) (destination_email_address ec)
                  (plain_text_body ec) (html_body ec) of
             (Inl e, self1) \<Rightarrow> (Inl e, self1, w)
           | (Inr _, self1) \<Rightarrow>
               (case (if attachments ec \<noteq> []
                      then add_attachments (filesystem w) self1 (attachments ec)
                      else (Inr (), self1)) of
                  (Inl e, self2) \<Rightarrow> (Inl e, self2, w)
                | (Inr _, self2) \<Rightarrow>
                    (case smtp_session (cfg self2) w of
                       (None, w1) \<Rightarrow> (Inr None, self2, w1)
                     | (Some e, w1) \<Rightarrow> (Inr None, self2, print (except_clause e) e w1)))))"

section \<open>\<open>EmailClient\<close>\<close>

record EmailClient =
  client :: SMTPClient

definition EmailClient_init :: "(string \<rightharpoonup> string) \<Rightarrow> EmailClient" where
  "EmailClient_init environ = \<lparr>client = SMTPClient_init environ\<rparr>"

text \<open>
  \<open>EmailClient.send_email\<close>: the call of the owned client is an expression statement;
  its value \<open>r\<close> is not used, and the method ends without a \<open>return\<close>.
\<close>

definition EmailClient_send_email ::
  "EmailClient \<Rightarrow> EmailMessage option \<Rightarrow> world \<Rightarrow> (exn + bool option) \<times> EmailClient \<times> world" where
  "EmailClient_send_email self email_message w =
     (case SMTPClient_send_email (client self) email_message w of
        (Inl e, c, w1) \<Rightarrow> (Inl e, self\<lparr>client := c\<rparr>, w1)
      | (Inr r, c, w1) \<Rightarrow> (Inr None, self\<lparr>client := c\<rparr>, w1))"

section \<open>Vocabulary of the properties\<close>

text \<open>
  A path references an existing, readable file when the file system has readable content
  for it.  For a path that does not, \<open>attachment_error\<close> is what the attachment loop
  raises: \<open>FileNotFoundError\<close> with the loop's message when nothing exists at the path,
  the operating-system error of \<open>exists\<close> or of \<open>open\<close> otherwise.  A text can be
  encoded when \<open>MIMEText\<close> accepts it.
\<close>

definition readable :: "(path \<rightharpoonup> fs_entry) \<Rightarrow> path \<Rightarrow> bool" where
  "readable fs file = (case fs file of Some (Readable _) \<Rightarrow> True | _ \<Rightarrow> False)"

definition attachment_error :: "(path \<rightharpoonup> fs_entry) \<Rightarrow> path \<Rightarrow> exn" where
  "attachment_error fs file =
     (case fs file of
        None \<Rightarrow> FileNotFoundError (''Could not find file: '' @ file)
      | Some _ \<Rightarrow> OSError file)"

definition encodable :: "string \<Rightarrow> bool" where
  "encodable text = (\<not> has_unencodable_surrogate text)"

fun is_FileNotFoundError :: "exn + 'a \<Rightarrow> bool" where
  "is_FileNotFoundError (Inl (FileNotFoundError _)) = True"
| "is_FileNotFoundError _ = False"

section \<open>Concrete inputs\<close>

text \<open>
  An environment that sets both variables, the message of the spec's scenarios, relays
  that accept everything or reject the login, a three-octet file (\<open>hi\<close> and a newline),
  a world that starts with nothing sent and nothing printed, and the text \<open>caf\<close>
  followed by the lone surrogate \<open>U+D83D\<close>.
\<close>

definition configured_environ :: "string \<rightharpoonup> string" where
  "configured_environ =
     [''SENDER_EMAIL_ADDRESS'' \<mapsto> ''odyssey@example.com'',
      ''GOOGLE_SMTP_APP_PASS'' \<mapsto> ''secret'']"

definition scenario_message :: EmailMessage where
  "scenario_message =
     \<lparr>destination_email_address = ''a@example.com'', subject = ''Hi'',
      plain_text_body = ''hello'', html_body = ''<p>hello</p>'', attachments = []\<rparr>"

definition accepting_relay :: relay where
  "accepting_relay =
     \<lparr>connect_raises = None, login_raises = None, sendmail_raises = None,
      quit_raises = None\<rparr>"

definition auth_rejecting_relay :: relay where
  "auth_rejecting_relay = accepting_relay\<lparr>login_raises := Some SMTPAuthenticationError\<rparr>"

definition initial_world :: "(path \<rightharpoonup> fs_entry) \<Rightarrow> relay \<Rightarrow> world" where
  "initial_world fs r = \<lparr>filesystem = fs, server = r, net_log = [], stdout = []\<rparr>"

definition one_file :: "path \<rightharpoonup> fs_entry" where
  "one_file = [''test_attachment.txt'' \<mapsto> Readable [0x68, 0x69, 0x0A]]"

definition lone_surrogate_text :: string where
  "lone_surrogate_text = ''caf'' @ [CHR 0xED, CHR 0xA0, CHR 0xBD]"

section \<open>Name resolution in this module\<close>

lemma load_global_receiver_email:
  "load_global ''receiver_email'' = Inl (NameError ''receiver_email'')"
  by (simp add: load_global_def module_globals_def builtins_def)

lemma raise_RunTimeError: "raise_named ''RunTimeError'' msg = NameError ''RunTimeError''"
  by (simp add: raise_named_def load_global_def module_globals_def builtins_def)

lemma raise_RuntTimeError: "raise_named ''RuntTimeError'' msg = NameError ''RuntTimeError''"
  by (simp add: raise_named_def load_global_def module_globals_def builtins_def)

lemma raise_FileNotFoundError:
  "raise_named ''FileNotFoundError'' msg = FileNotFoundError msg"
  by (simp add: raise_named_def load_global_def module_globals_def builtins_def
      instantiate_def)

lemma raise_SMTPEmailException:
  "raise_named ''SMTPEmailException'' msg = SMTPEmailException msg"
  by (simp add: raise_named_def load_global_def module_globals_def builtins_def
      instantiate_def)

lemmas constant_defs =
  SMTP_SERVER_def SMTP_PORT_def SECURITY_CONTRACT_def MULTIPART_ENTRY_def SUBJECT_def
  FROM_def TO_def PLAIN_TEXT_def HTML_def SENDER_EMAIL_ADDRESS_def
  GOOGLE_SMTP_APP_PASS_def

lemmas builder_defs =
  MIMEMultipart_new_def set_header_def attach_def truthy_def MIMEText_init_def

lemmas attachment_defs =
  exists_def open_rb_def MIMEBase_new_def b2a_base64_def b64_char_def b64_alphabet_def

lemmas client_defs =
  SMTPClient_send_email_def init_MIMEMultipart_email_def smtp_session_def smtp_exit_def
  with_body_def emit_def print_def SMTPClient_init_def SMTPConfig_new_def getenv_def

lemmas input_defs =
  configured_environ_def scenario_message_def accepting_relay_def
  auth_rejecting_relay_def initial_world_def one_file_def lone_surrogate_text_def

section \<open>Construction\<close>

text \<open>
  C6. With neither variable set, construction returns a client whose sender address and
  password are both the empty string.  \<open>__post_init__\<close>, had anything called it, would
  accept that client as well.  A \<open>send_email\<close> on it runs as on any other client and logs
  in at the relay with the two empty strings.
\<close>

theorem construction_accepts_empty_environment:
  "SMTPClient_init Map.empty =
     \<lparr>cfg = \<lparr>sender_email_address = [], google_smtp_app_passwd = [],
             smtp_server = ''smtp.gmail.com'', smtp_port = ''465'',
             security_contract = ''SSL''\<rparr>,
      message = MIMEMultipart_new ''alternative''\<rparr>
   \<and> SMTPClient_post_init (SMTPClient_init Map.empty) = Inr ()
   \<and> net_log (snd (snd (SMTPClient_send_email (SMTPClient_init Map.empty)
        (Some scenario_message) (initial_world Map.empty accepting_relay))))
       = [Connect ''smtp.gmail.com'' ''465'', Login [] [], Quit]"
  by (simp add: client_defs builder_defs constant_defs input_defs SMTPClient_post_init_def
      load_global_receiver_email Let_def)

section \<open>Composition\<close>

text \<open>
  On a client that has just been constructed, composing a message with non-empty
  subject and bodies that can be encoded succeeds: the builder's own two headers are followed by
  \<open>Subject\<close>, \<open>From\<close> and \<open>To\<close>, and the parts are the plain text and then the HTML.
\<close>

lemma compose_on_new_client:
  "plain \<noteq> [] \<Longrightarrow> html \<noteq> [] \<Longrightarrow> subj \<noteq> [] \<Longrightarrow> encodable plain \<Longrightarrow> encodable html \<Longrightarrow>
   init_MIMEMultipart_email (SMTPClient_init environ) subj dest plain html =
     (Inr (),
      (SMTPClient_init environ)
        \<lparr>message :=
           \<lparr>headers = [(''Content-Type'', ''multipart/alternative''),
                       (''MIME-Version'', ''1.0''), (''Subject'', subj),
                       (''From'', getenv environ ''SENDER_EMAIL_ADDRESS'' []),
                       (''To'', dest)],
            parts = [MIMEText plain ''plain'', MIMEText html ''html'']\<rparr>\<rparr>)"
  by (simp add: client_defs builder_defs constant_defs encodable_def Let_def)

text \<open>
  On any client whose builder has a header, composition keeps what the builder holds
  and appends to it.
\<close>

lemma compose_appends:
  "plain \<noteq> [] \<Longrightarrow> html \<noteq> [] \<Longrightarrow> subj \<noteq> [] \<Longrightarrow> encodable plain \<Longrightarrow> encodable html \<Longrightarrow>
   headers (message self) \<noteq> [] \<Longrightarrow>
   init_MIMEMultipart_email self subj dest plain html =
     (Inr (),
      self\<lparr>message :=
             \<lparr>headers = headers (message self)
                         @ [(''Subject'', subj),
                            (''From'', sender_email_address (cfg self)), (''To'', dest)],
              parts = parts (message self)
                       @ [MIMEText plain ''plain'', MIMEText html ''html'']\<rparr>\<rparr>)"
  by (simp add: client_defs builder_defs constant_defs encodable_def Let_def)

text \<open>
  Composition succeeds exactly when no guard fires and both bodies can be encoded.
\<close>

lemma compose_succeeds_iff:
  "fst (init_MIMEMultipart_email self subj dest plain html) = Inr ()
   \<longleftrightarrow> plain \<noteq> [] \<and> html \<noteq> [] \<and> subj \<noteq> [] \<and> encodable plain \<and> encodable html"
  by (simp add: init_MIMEMultipart_email_def MIMEText_init_def encodable_def Let_def
      split: sum.splits)

text \<open>
  C3. Composing the scenario's message on a new client gives the two parts, plain text
  first and HTML second.  Composing it once more on the same client succeeds as well and
  leaves a structure with four body parts and with \<open>Subject\<close>, \<open>From\<close> and \<open>To\<close>
  twice each.
\<close>

theorem second_composition_has_four_parts:
  "(case init_MIMEMultipart_email (SMTPClient_init configured_environ)
           ''Hi'' ''a@example.com'' ''hello'' ''<p>hello</p>'' of
      (first, self1) \<Rightarrow>
        (case init_MIMEMultipart_email self1
                ''Hi'' ''a@example.com'' ''hello'' ''<p>hello</p>'' of
           (second, self2) \<Rightarrow>
             first = Inr () \<and> second = Inr ()
             \<and> parts (message self1) =
                 [MIMEText ''hello'' ''plain'', MIMEText ''<p>hello</p>'' ''html'']
             \<and> parts (message self2) =
                 [MIMEText ''hello'' ''plain'', MIMEText ''<p>hello</p>'' ''html'',
                  MIMEText ''hello'' ''plain'', MIMEText ''<p>hello</p>'' ''html'']
             \<and> map fst (headers (message self2)) =
                 [''Content-Type'', ''MIME-Version'', ''Subject'', ''From'', ''To'',
                  ''Subject'', ''From'', ''To'']))"
  by (simp add: client_defs builder_defs constant_defs input_defs Let_def)

text \<open>
  Whenever one of the three guards fires, what is raised is the \<open>NameError\<close> of the
  misspelt class name, and the client is as it was.
\<close>

lemma guards_raise_NameError:
  "plain = [] \<or> html = [] \<or> subj = [] \<Longrightarrow>
   init_MIMEMultipart_email self subj dest plain html =
     (Inl (NameError (if plain = [] then ''RunTimeError'' else ''RuntTimeError'')), self)"
  by (auto simp: init_MIMEMultipart_email_def raise_RunTimeError raise_RuntTimeError)

text \<open>
  C4. The scenario's message with the empty subject: the guard for the subject evaluates
  \<open>raise RuntTimeError(...)\<close>, a name that nothing binds, so what leaves \<open>send_email\<close> is
  \<open>NameError\<close> for \<open>RuntTimeError\<close>.  The client and the world are as they were: no
  connection was attempted.
\<close>

theorem empty_subject_raises_NameError:
  "SMTPClient_send_email (SMTPClient_init configured_environ)
      (Some (scenario_message\<lparr>subject := []\<rparr>)) (initial_world Map.empty accepting_relay)
   = (Inl (NameError ''RuntTimeError''), SMTPClient_init configured_environ,
      initial_world Map.empty accepting_relay)"
  by (simp add: SMTPClient_send_email_def init_MIMEMultipart_email_def scenario_message_def
      raise_RuntTimeError)

section \<open>Attachments\<close>

text \<open>
  A readable file becomes one part: \<open>application/octet-stream\<close>, the content encoded by
  \<open>encodebytes\<close>, and a header named \<open>Content\<close> that carries the path.
\<close>

lemma add_attachments_readable:
  "fs file = Some (Readable content) \<Longrightarrow>
   add_attachments fs self [file] =
     (Inr (),
      self\<lparr>message :=
        attach (message self)
          (MIMEBase [(''Content-Type'', ''application/octet-stream''),
                     (''MIME-Version'', ''1.0''),
                     (''Content-Transfer-Encoding'', ''base64''),
                     (''Content'', ''attachment; filename = '' @ file)]
             (TextPayload (encodebytes content)))\<rparr>)"
  by (simp add: exists_def open_rb_def MIMEBase_new_def Let_def del: encodebytes.simps)

text \<open>
  C9. The scenario's message with the attachment \<open>test_attachment.txt\<close>, a file of the
  three octets \<open>68 69 0A\<close>.  After \<open>send_email\<close> the builder holds a third part of type
  \<open>application/octet-stream\<close> whose payload is the base64 text \<open>aGkK\<close>; the header that
  names the attachment is called \<open>Content\<close>, and the part has no \<open>Content-Disposition\<close>
  header.
\<close>

theorem attachment_header_is_named_Content:
  "(case SMTPClient_send_email (SMTPClient_init configured_environ)
           (Some (scenario_message\<lparr>attachments := [''test_attachment.txt'']\<rparr>))
           (initial_world one_file accepting_relay) of
      (result, self', w') \<Rightarrow>
        parts (message self') =
          [MIMEText ''hello'' ''plain'', MIMEText ''<p>hello</p>'' ''html'',
           MIMEBase [(''Content-Type'', ''application/octet-stream''),
                     (''MIME-Version'', ''1.0''),
                     (''Content-Transfer-Encoding'', ''base64''),
                     (''Content'', ''attachment; filename = test_attachment.txt'')]
             (TextPayload (''aGkK'' @ [CHR 0x0A]))]
        \<and> map (\<lambda>p. map_of (part_headers p) ''Content-Disposition'') (parts (message self'))
            = [None, None, None])"
  by (simp add: client_defs builder_defs constant_defs input_defs attachment_defs
      load_global_receiver_email Let_def)

text \<open>
  The loop stops at the first path that is not an existing, readable file, with
  that path's error.
\<close>

lemma add_attachments_first_unreadable:
  "find (\<lambda>file. \<not> readable fs file) files = Some p \<Longrightarrow>
   fst (add_attachments fs self files) = Inl (attachment_error fs p)"
proof (induction files arbitrary: self)
  case Nil
  then show ?case by simp
next
  case (Cons a rest)
  show ?case
  proof (cases "fs a")
    case None
    with Cons.prems show ?thesis
      by (simp add: readable_def exists_def attachment_error_def raise_FileNotFoundError)
  next
    case (Some entry)
    show ?thesis
    proof (cases entry)
      case (Readable content)
      with Some Cons.prems have "find (\<lambda>file. \<not> readable fs file) rest = Some p"
        by (simp add: readable_def)
      then have "fst (add_attachments fs s rest) = Inl (attachment_error fs p)" for s
        by (rule Cons.IH)
      with Some Readable show ?thesis
        by (simp add: exists_def open_rb_def Let_def)
    next
      case Unreadable
      with Some Cons.prems show ?thesis
        by (simp add: readable_def exists_def open_rb_def attachment_error_def)
    next
      case Inaccessible
      with Some Cons.prems show ?thesis
        by (simp add: readable_def exists_def attachment_error_def)
    qed
  qed
qed

text \<open>
  C5, as the spec states it, fails at three inputs, each with a missing or unreadable
  attachment.  A message whose only attachment is a path that exists but cannot be read:
  \<open>send_email\<close> fails with the error of \<open>open\<close>, not with \<open>FileNotFoundError\<close>.  A
  message with the empty subject and a missing attachment: the subject's guard fails
  first, and the attachment is never looked at.  A message whose plain-text body holds a
  lone surrogate and whose attachment is missing: \<open>MIMEText\<close> fails first, with
  \<open>UnicodeEncodeError\<close>.
\<close>

theorem bad_attachment_not_always_FileNotFoundError:
  "\<not> is_FileNotFoundError
       (fst (SMTPClient_send_email (SMTPClient_init configured_environ)
          (Some (scenario_message\<lparr>attachments := [''reports'']\<rparr>))
          (initial_world [''reports'' \<mapsto> Unreadable] accepting_relay)))
   \<and> \<not> is_FileNotFoundError
       (fst (SMTPClient_send_email (SMTPClient_init configured_environ)
          (Some (scenario_message\<lparr>subject := [], attachments := [''missing.txt'']\<rparr>))
          (initial_world Map.empty accepting_relay)))
   \<and> \<not> is_FileNotFoundError
       (fst (SMTPClient_send_email (SMTPClient_init configured_environ)
          (Some (scenario_message\<lparr>plain_text_body := lone_surrogate_text,
                                   attachments := [''missing.txt'']\<rparr>))
          (initial_world Map.empty accepting_relay)))"
  by (simp add: client_defs builder_defs constant_defs input_defs exists_def open_rb_def
      raise_RuntTimeError Let_def)

text \<open>
  C5, amended.  For every message whose attachment list contains a path that is not an
  existing, readable file, and for every client and world, \<open>send_email\<close> fails with an
  exception and returns the world as it was: no connection was attempted, nothing was
  sent.  When moreover the subject and both bodies are non-empty and both bodies can be
  encoded, the exception is the error of the first such path \<open>p\<close>: \<open>FileNotFoundError\<close>
  when nothing exists at \<open>p\<close>, the operating-system error of \<open>exists\<close> or \<open>open\<close>
  otherwise.
\<close>

theorem bad_attachment_fails_before_connecting:
  assumes "find (\<lambda>file. \<not> readable (filesystem w) file) (attachments m) = Some p"
  shows "isl (fst (SMTPClient_send_email self (Some m) w))
       \<and> snd (snd (SMTPClient_send_email self (Some m) w)) = w
       \<and> (plain_text_body m \<noteq> [] \<and> html_body m \<noteq> [] \<and> subject m \<noteq> []
            \<and> encodable (plain_text_body m) \<and> encodable (html_body m)
          \<longrightarrow> fst (SMTPClient_send_email self (Some m) w)
                = Inl (attachment_error (filesystem w) p))"
proof -
  obtain composed self1 where composition:
    "init_MIMEMultipart_email self (subject m) (destination_email_address m)
       (plain_text_body m) (html_body m) = (composed, self1)"
    by (cases "init_MIMEMultipart_email self (subject m) (destination_email_address m)
       (plain_text_body m) (html_body m)")
  from assms have nonempty: "attachments m \<noteq> []" by auto
  have "fst (add_attachments (filesystem w) self1 (attachments m))
          = Inl (attachment_error (filesystem w) p)"
    using assms by (rule add_attachments_first_unreadable)
  then obtain self2 where attached:
    "add_attachments (filesystem w) self1 (attachments m)
       = (Inl (attachment_error (filesystem w) p), self2)"
    by (cases "add_attachments (filesystem w) self1 (attachments m)") simp
  show ?thesis
  proof (cases composed)
    case (Inl e)
    then have "fst (init_MIMEMultipart_email self (subject m) (destination_email_address m)
       (plain_text_body m) (html_body m)) \<noteq> Inr ()"
      by (simp add: composition)
    then have "\<not> (plain_text_body m \<noteq> [] \<and> html_body m \<noteq> [] \<and> subject m \<noteq> []
            \<and> encodable (plain_text_body m) \<and> encodable (html_body m))"
      by (simp only: compose_succeeds_iff not_False_eq_True)
    with Inl show ?thesis
      by (auto simp: SMTPClient_send_email_def composition)
  next
    case (Inr u)
    then show ?thesis
      by (simp add: SMTPClient_send_email_def composition nonempty attached)
  qed
qed

text \<open>
  The amended C5 at a message whose first attachment is readable and whose second is
  missing.
\<close>

theorem bad_attachment_fails_before_connecting_witness:
  "find (\<lambda>file. \<not> readable (filesystem (initial_world one_file accepting_relay)) file)
        (attachments (scenario_message\<lparr>attachments := [''test_attachment.txt'', ''missing.txt'']\<rparr>))
       = Some ''missing.txt''
   \<and> plain_text_body (scenario_message\<lparr>attachments := [''test_attachment.txt'', ''missing.txt'']\<rparr>) \<noteq> []
   \<and> html_body (scenario_message\<lparr>attachments := [''test_attachment.txt'', ''missing.txt'']\<rparr>) \<noteq> []
   \<and> subject (scenario_message\<lparr>attachments := [''test_attachment.txt'', ''missing.txt'']\<rparr>) \<noteq> []
   \<and> encodable (plain_text_body (scenario_message\<lparr>attachments := [''test_attachment.txt'', ''missing.txt'']\<rparr>))
   \<and> encodable (html_body (scenario_message\<lparr>attachments := [''test_attachment.txt'', ''missing.txt'']\<rparr>))
   \<and> isl (fst (SMTPClient_send_email (SMTPClient_init configured_environ)
          (Some (scenario_message\<lparr>attachments := [''test_attachment.txt'', ''missing.txt'']\<rparr>))
          (initial_world one_file accepting_relay)))
   \<and> fst (SMTPClient_send_email (SMTPClient_init configured_environ)
          (Some (scenario_message\<lparr>attachments := [''test_attachment.txt'', ''missing.txt'']\<rparr>))
          (initial_world one_file accepting_relay))
       = Inl (FileNotFoundError ''Could not find file: missing.txt'')
   \<and> snd (snd (SMTPClient_send_email (SMTPClient_init configured_environ)
          (Some (scenario_message\<lparr>attachments := [''test_attachment.txt'', ''missing.txt'']\<rparr>))
          (initial_world one_file accepting_relay)))
       = initial_world one_file accepting_relay"
  using bad_attachment_fails_before_connecting
    [of "initial_world one_file accepting_relay"
        "scenario_message\<lparr>attachments := [''test_attachment.txt'', ''missing.txt'']\<rparr>"
        "''missing.txt''" "SMTPClient_init configured_environ"]
  by (simp add: scenario_message_def initial_world_def one_file_def readable_def
      attachment_error_def encodable_def)

section \<open>The send path\<close>


text \<open>
  Every run of the \<open>with\<close> block ends in an exception: the one of the login, or the
  \<open>NameError\<close> of \<open>receiver_email\<close>.  No run reaches \<open>sendmail\<close>.
\<close>

lemma with_body_always_raises:
  "with_body c w =
     (case login_raises (server w) of
        Some e \<Rightarrow> Some e
      | None \<Rightarrow> Some (NameError ''receiver_email''),
      emit (Login (sender_email_address c) (google_smtp_app_passwd c)) w)"
  by (simp add: with_body_def emit_def load_global_receiver_email Let_def
      split: option.splits)

text \<open>
  C1. The spec's scenario: recipient \<open>a@example.com\<close>, subject \<open>Hi\<close>, plain text
  \<open>hello\<close>, HTML \<open><p>hello</p>\<close>, no attachments, on a configured client and a relay
  that accepts the connection, the login and any transmission.  The client connects to
  \<open>smtp.gmail.com:465\<close> and logs in with the configured credentials; evaluating the
  arguments of \<open>sendmail\<close> then raises \<open>NameError\<close> for \<open>receiver_email\<close>, which the
  last \<open>except\<close> clause prints.  Nothing is transmitted, and the call returns \<open>None\<close>.
\<close>

theorem send_to_accepting_relay_transmits_nothing:
  "(case SMTPClient_send_email (SMTPClient_init configured_environ) (Some scenario_message)
           (initial_world Map.empty accepting_relay) of
      (result, self', w') \<Rightarrow>
        result = Inr None
        \<and> net_log w' = [Connect ''smtp.gmail.com'' ''465'',
                         Login ''odyssey@example.com'' ''secret'', Quit]
        \<and> stdout w' = [(''Exception raised in SMTPClient.send_email() instance.'',
                         NameError ''receiver_email'')])"
  by (simp add: client_defs builder_defs constant_defs input_defs
      load_global_receiver_email Let_def)

text \<open>
  C2. The same message on a relay that rejects the login with
  \<open>SMTPAuthenticationError\<close>: the second \<open>except\<close> clause prints
  \<open>Error with Server Auth.\<close>, no exception leaves \<open>send_email\<close>, and the value returned
  to the caller is \<open>None\<close>.
\<close>

theorem rejected_login_returns_None:
  "(case SMTPClient_send_email (SMTPClient_init configured_environ) (Some scenario_message)
           (initial_world Map.empty auth_rejecting_relay) of
      (result, self', w') \<Rightarrow>
        result = Inr None
        \<and> net_log w' = [Connect ''smtp.gmail.com'' ''465'',
                         Login ''odyssey@example.com'' ''secret'', Quit]
        \<and> stdout w' = [(''Error with Server Auth.'', SMTPAuthenticationError)])"
  by (simp add: client_defs builder_defs constant_defs input_defs Let_def)

text \<open>
  C8. Two calls of \<open>send_email\<close> with the scenario's message on one client.  The builder
  after the second call is not the builder after the first: it holds the two parts of the
  first call followed by the same two parts again, and each of \<open>Subject\<close>, \<open>From\<close> and
  \<open>To\<close> twice.
\<close>

theorem second_send_reuses_the_builder:
  "(case SMTPClient_send_email (SMTPClient_init configured_environ) (Some scenario_message)
           (initial_world Map.empty accepting_relay) of
      (r1, self1, w1) \<Rightarrow>
        (case SMTPClient_send_email self1 (Some scenario_message) w1 of
           (r2, self2, w2) \<Rightarrow>
             message self2 \<noteq> message self1
             \<and> length (parts (message self1)) = 2
             \<and> parts (message self2) = parts (message self1) @ parts (message self1)
             \<and> map fst (headers (message self2)) =
                 [''Content-Type'', ''MIME-Version'', ''Subject'', ''From'', ''To'',
                  ''Subject'', ''From'', ''To'']))"
  by (simp add: client_defs builder_defs constant_defs input_defs
      load_global_receiver_email Let_def)

text \<open>
  C10. Called with \<open>None\<close>, \<open>send_email\<close> raises \<open>SMTPEmailException\<close> with the text
  \<open>Must Specify Message Contents for Mail Transfer\<close>; the client is as it was, and the
  world is as it was: nothing was composed, no connection was attempted, nothing was
  printed.
\<close>

theorem send_email_None_raises:
  "SMTPClient_send_email self None w =
     (Inl (SMTPEmailException ''Must Specify Message Contents for Mail Transfer''), self, w)"
  by (simp add: SMTPClient_send_email_def raise_SMTPEmailException)

section \<open>The facade\<close>

text \<open>\<open>EmailClient.send_email\<close> has no \<open>return\<close> either.\<close>

lemma facade_returns_no_bool:
  "fst (EmailClient_send_email self email_message w) \<noteq> Inr (Some b)"
  by (simp add: EmailClient_send_email_def split: prod.splits sum.splits)


end
